theory Spec2Isabelle
  imports Main
begin

section \<open>Python values and errors\<close>

text \<open>
  The values an accessor is bound to and focuses on.  \<open>PNone\<close> is Python's \<open>None\<close>;
  the facade tests \<open>state is None\<close> and \<open>state is not None\<close> against it.
  \<open>PNotImplemented\<close> is the value \<open>NotImplemented\<close>, which a special method returns
  when it declines its operand.
\<close>

datatype pyval =
    PNone
  | PBool bool
  | PInt int
  | PStr string
  | PList "pyval list"
  | PNotImplemented

text \<open>Every \<open>raise\<close> of the facade, and every exception an optic may raise, is a value.\<close>

datatype pyerr =
    ValueError string
  | IndexError string
  | TypeError string
  | AttributeError string
  | UserError string

type_synonym 'a result = "pyerr + 'a"

text \<open>Sequencing of fallible steps: the first raised exception propagates.\<close>

definition e_bind :: "'a result \<Rightarrow> ('a \<Rightarrow> 'b result) \<Rightarrow> 'b result" where
  "e_bind m f = (case m of Inl e \<Rightarrow> Inl e | Inr x \<Rightarrow> f x)"

text \<open>Keyword arguments \<open>**kwargs\<close>, in call order.\<close>

type_synonym kwargs = "(string \<times> pyval) list"

text \<open>A parameter declared \<open>state=None\<close>: an omitted argument takes the default.\<close>

definition default_None :: "pyval option \<Rightarrow> pyval" where
  "default_None arg = (case arg of None \<Rightarrow> PNone | Some v \<Rightarrow> v)"

text \<open>\<open>xs[0]\<close> on a Python list: \<open>IndexError\<close> when the list is empty.\<close>

definition py_first :: "pyval list \<Rightarrow> pyval result" where
  "py_first xs = (case xs of [] \<Rightarrow> Inl (IndexError ''list index out of range'') | x # _ \<Rightarrow> Inr x)"

text \<open>\<open>str.startswith\<close> and \<open>str.endswith\<close>.\<close>

definition startswith :: "string \<Rightarrow> string \<Rightarrow> bool" where
  "startswith s p = (take (length p) s = p)"

definition endswith :: "string \<Rightarrow> string \<Rightarrow> bool" where
  "endswith s p = (length p \<le> length s \<and> drop (length s - length p) s = p)"

section \<open>Objects and the store\<close>

text \<open>
  A method of the focus may change its receiver in place, and \<open>call_mut\<close> copies the
  focus so that such a method does not change the state the accessor is bound to.  What
  is copied and what stays shared is a matter of object identity, so the runtime works
  on objects in a store: a list is a cell of the store holding its elements, an element
  is an immediate value or a reference to a cell, and a new object is allocated at the
  end of the store.
\<close>

datatype hval = HNone | HBool bool | HInt int | HStr string | HNotImplemented | HRef nat

type_synonym store = "hval list list"

type_synonym memo = "(nat \<times> nat) list"

text \<open>A reference to no cell cannot arise in Python; the operations answer it with an error.\<close>

definition dangling :: pyerr where
  "dangling = UserError ''reference to no object''"


text \<open>Python truthiness, as \<open>if shallow\<close> evaluates it.\<close>

fun truthy_st :: "store \<Rightarrow> hval \<Rightarrow> bool" where
  "truthy_st h HNone = False"
| "truthy_st h (HBool b) = b"
| "truthy_st h (HInt i) = (i \<noteq> 0)"
| "truthy_st h (HStr s) = (s \<noteq> [])"
| "truthy_st h HNotImplemented = True"
| "truthy_st h (HRef p) = (p < length h \<and> h ! p \<noteq> [])"


definition alloc :: "hval list \<Rightarrow> store \<Rightarrow> hval \<times> store" where
  "alloc xs h = (HRef (length h), h @ [xs])"

text \<open>
  \<open>copy.copy\<close>: a new list holding the same elements; an immutable value is its own
  copy.
\<close>

fun copy_copy_st :: "hval \<Rightarrow> store \<Rightarrow> (hval \<times> store) result" where
  "copy_copy_st (HRef p) h = (if p < length h then Inr (alloc (h ! p) h) else Inl dangling)"
| "copy_copy_st v h = Inr (v, h)"

text \<open>
  \<open>copy.deepcopy\<close>, with its memo from copied objects to their copies: an object in
  the memo is answered from it; otherwise a new empty list is allocated and entered in
  the memo, each element is copied in turn and appended.  The recursion is bounded by
  the first argument, which counts the objects that may still be entered in the memo.
\<close>

fun deepcopy :: "nat \<Rightarrow> hval \<Rightarrow> store \<Rightarrow> memo \<Rightarrow> (hval \<times> store \<times> memo) option"
  and deepcopy_list :: "nat \<Rightarrow> hval list \<Rightarrow> store \<Rightarrow> memo \<Rightarrow> (hval list \<times> store \<times> memo) option"
where
  "deepcopy n (HRef p) h m =
     (case map_of m p of
        Some q \<Rightarrow> Some (HRef q, h, m)
      | None \<Rightarrow>
          (case n of
             0 \<Rightarrow> None
           | Suc n' \<Rightarrow>
               if p < length h then
                 (case deepcopy_list n' (h ! p) (h @ [[]]) ((p, length h) # m) of
                    None \<Rightarrow> None
                  | Some (ys, h', m') \<Rightarrow> Some (HRef (length h), h'[length h := ys], m'))
               else None))"
| "deepcopy n HNone h m = Some (HNone, h, m)"
| "deepcopy n (HBool b) h m = Some (HBool b, h, m)"
| "deepcopy n (HInt i) h m = Some (HInt i, h, m)"
| "deepcopy n (HStr s) h m = Some (HStr s, h, m)"
| "deepcopy n HNotImplemented h m = Some (HNotImplemented, h, m)"
| "deepcopy_list n [] h m = Some ([], h, m)"
| "deepcopy_list n (x # xs) h m =
     (case deepcopy n x h m of
        None \<Rightarrow> None
      | Some (y, h', m') \<Rightarrow>
          (case deepcopy_list n xs h' m' of
             None \<Rightarrow> None
           | Some (ys, h'', m'') \<Rightarrow> Some (y # ys, h'', m'')))"

text \<open>
  A bound of the number of cells lets every object of the store be entered once, so in a
  well-formed store the copy always returns; only a reference to no cell stops it.
\<close>

definition copy_deepcopy_st :: "hval \<Rightarrow> store \<Rightarrow> (hval \<times> store) result" where
  "copy_deepcopy_st a h =
     (case deepcopy (length h) a h [] of
        None \<Rightarrow> Inl dangling
      | Some (a', h', m) \<Rightarrow> Inr (a', h'))"

text \<open>
  The value of a store object read to depth \<open>k\<close>, as a value of the facade: two objects
  are equal by value when they read the same at every depth.  \<open>read_value\<close> reads an
  object to the depth of the whole store, which reaches every element of an object that
  does not contain itself.
\<close>

fun reify :: "nat \<Rightarrow> store \<Rightarrow> hval \<Rightarrow> pyval option" where
  "reify k h HNone = Some PNone"
| "reify k h (HBool b) = Some (PBool b)"
| "reify k h (HInt i) = Some (PInt i)"
| "reify k h (HStr s) = Some (PStr s)"
| "reify k h HNotImplemented = Some PNotImplemented"
| "reify 0 h (HRef p) = None"
| "reify (Suc k) h (HRef p) =
     (if p < length h then map_option PList (those (map (reify k h) (h ! p))) else None)"

definition read_value :: "store \<Rightarrow> hval \<Rightarrow> pyval result" where
  "read_value h a =
     (case reify (Suc (length h)) h a of None \<Rightarrow> Inl dangling | Some v \<Rightarrow> Inr v)"

text \<open>
  A value as an object of the store: its lists are allocated as new cells, the elements
  before the list that holds them.
\<close>

fun load :: "pyval \<Rightarrow> store \<Rightarrow> hval \<times> store"
  and load_list :: "pyval list \<Rightarrow> store \<Rightarrow> hval list \<times> store"
where
  "load PNone h = (HNone, h)"
| "load (PBool b) h = (HBool b, h)"
| "load (PInt i) h = (HInt i, h)"
| "load (PStr s) h = (HStr s, h)"
| "load PNotImplemented h = (HNotImplemented, h)"
| "load (PList xs) h = (case load_list xs h of (ys, h1) \<Rightarrow> alloc ys h1)"
| "load_list [] h = ([], h)"
| "load_list (x # xs) h =
     (case load x h of (y, h1) \<Rightarrow>
        (case load_list xs h1 of (ys, h2) \<Rightarrow> (y # ys, h2)))"

section \<open>The optics module, as the facade uses it\<close>

text \<open>
  The facade imports \<open>optics\<close> and calls its constructors and the methods of the optic
  objects it holds.  The module is a parameter of every facade function: \<open>'o\<close> is the type
  of optic objects, and the record lists the constructors and methods the facade calls.
  Every method may raise.
\<close>

record 'o optics =
  TrivialIso :: "'o"
  GetitemLens :: "pyval \<Rightarrow> 'o"
  GetZoomAttrTraversal :: "string \<Rightarrow> 'o"
  compose :: "'o \<Rightarrow> 'o \<Rightarrow> 'o result"
  to_list_of :: "'o \<Rightarrow> pyval \<Rightarrow> pyval list result"
  view :: "'o \<Rightarrow> pyval \<Rightarrow> pyval result"
  set_o :: "'o \<Rightarrow> pyval \<Rightarrow> pyval \<Rightarrow> pyval result"
  over :: "'o \<Rightarrow> pyval \<Rightarrow> (pyval \<Rightarrow> pyval result) \<Rightarrow> pyval result"
  re :: "'o \<Rightarrow> 'o result"
  from_o :: "'o \<Rightarrow> 'o result"

text \<open>
  The Python runtime, likewise a parameter: the methods of the objects.  A list method
  reads the store and answers with its return value (an immediate value or an object of
  the store) and the elements its receiver holds after the call: it changes no object
  but its receiver, as the methods of Python's lists do.  A method of an immutable
  value returns a value.
\<close>

type_synonym hkwargs = "(string \<times> hval) list"

record host =
  list_method ::
    "store \<Rightarrow> string \<Rightarrow> hval list \<Rightarrow> hval list \<Rightarrow> hkwargs \<Rightarrow> (hval \<times> hval list) result"
  atom_method :: "hval \<Rightarrow> string \<Rightarrow> hval list \<Rightarrow> hkwargs \<Rightarrow> hval result"

text \<open>
  \<open>getattr(a, name)(*args, **kwargs)\<close> on an object of the store: the return value and
  the store as the call leaves it.
\<close>

fun getattr_call_st ::
  "host \<Rightarrow> hval \<Rightarrow> string \<Rightarrow> hval list \<Rightarrow> hkwargs \<Rightarrow> store \<Rightarrow> (hval \<times> store) result" where
  "getattr_call_st H (HRef p) name args kw h =
     (if p < length h
      then e_bind (list_method H h name (h ! p) args kw) (\<lambda>(r, ys). Inr (r, h[p := ys]))
      else Inl dangling)"
| "getattr_call_st H a name args kw h =
     e_bind (atom_method H a name args kw) (\<lambda>r. Inr (r, h))"

text \<open>
  The optic hands a function the focus as a value, and the arguments of the facade's
  methods are values.  \<open>getattr_call\<close> is \<open>getattr(a, name)(*args, **kwargs)\<close> on values:
  the receiver and the arguments become objects of an empty store, the method runs
  there, and the result is the value of the object it returns.
\<close>

definition getattr_call :: "host \<Rightarrow> pyval \<Rightarrow> string \<Rightarrow> pyval list \<Rightarrow> kwargs \<Rightarrow> pyval result" where
  "getattr_call H a name args kw =
     (case load a [] of (a, h) \<Rightarrow>
      case load_list args h of (args, h) \<Rightarrow>
      case load_list (map snd kw) h of (vs, h) \<Rightarrow>
        e_bind (getattr_call_st H a name args (zip (map fst kw) vs) h) (\<lambda>(r, h).
        read_value h r))"

section \<open>The accessor class of \<open>ui.py\<close>\<close>

text \<open>\<open>__slots__ = ['state', 'lens']\<close>.\<close>

record 'o Lens =
  state :: pyval
  lens :: 'o

text \<open>What \<open>add_lens\<close> may be given: an optic, an accessor, or anything else.\<close>

datatype 'o other = LensLike 'o | LensObj "'o Lens" | Other pyval

text \<open>What \<open>__getattr__\<close> returns: a bound caller or a new accessor.\<close>

datatype ('l, 't) attribute =
    Caller "pyval list \<Rightarrow> kwargs \<Rightarrow> 't"
  | Accessor 'l

definition Lens_init :: "'o optics \<Rightarrow> pyval option \<Rightarrow> 'o option \<Rightarrow> 'o Lens" where
  "Lens_init M state_arg lens_arg =
     (let l = (case lens_arg of None \<Rightarrow> TrivialIso M | Some l \<Rightarrow> l)
      in \<lparr>state = default_None state_arg, lens = l\<rparr>)"

definition Lens_assert_bound :: "'o Lens \<Rightarrow> string \<Rightarrow> unit result" where
  "Lens_assert_bound self name =
     (if state self = PNone then Inl (ValueError (name @ '' requires a bound lens''))
      else Inr ())"

definition Lens_assert_unbound :: "'o Lens \<Rightarrow> string \<Rightarrow> unit result" where
  "Lens_assert_unbound self name =
     (if state self \<noteq> PNone then Inl (ValueError (name @ '' requires an unbound lens''))
      else Inr ())"

definition Lens_bind :: "'o optics \<Rightarrow> 'o Lens \<Rightarrow> pyval \<Rightarrow> 'o Lens result" where
  "Lens_bind M self st =
     e_bind (Lens_assert_unbound self ''Lens.bind'') (\<lambda>_.
     Inr (Lens_init M (Some st) (Some (lens self))))"

definition Lens_get :: "'o optics \<Rightarrow> 'o Lens \<Rightarrow> pyval option \<Rightarrow> pyval result" where
  "Lens_get M self state_arg =
     (let st = default_None state_arg in
      e_bind (if st \<noteq> PNone then Lens_bind M self st else Inr self) (\<lambda>self.
      e_bind (Lens_assert_bound self ''Lens.get'') (\<lambda>_.
      e_bind (to_list_of M (lens self) (state self)) py_first)))"

definition Lens_get_all :: "'o optics \<Rightarrow> 'o Lens \<Rightarrow> pyval option \<Rightarrow> pyval list result" where
  "Lens_get_all M self state_arg =
     (let st = default_None state_arg in
      e_bind (if st \<noteq> PNone then Lens_bind M self st else Inr self) (\<lambda>self.
      e_bind (Lens_assert_bound self ''Lens.get_all'') (\<lambda>_.
      to_list_of M (lens self) (state self))))"

definition Lens_get_monoid :: "'o optics \<Rightarrow> 'o Lens \<Rightarrow> pyval option \<Rightarrow> pyval result" where
  "Lens_get_monoid M self state_arg =
     (let st = default_None state_arg in
      e_bind (if st \<noteq> PNone then Lens_bind M self st else Inr self) (\<lambda>self.
      e_bind (Lens_assert_bound self ''Lens.get_monoid'') (\<lambda>_.
      view M (lens self) (state self))))"

definition Lens_set :: "'o optics \<Rightarrow> 'o Lens \<Rightarrow> pyval \<Rightarrow> pyval option \<Rightarrow> pyval result" where
  "Lens_set M self newvalue state_arg =
     (let st = default_None state_arg in
      e_bind (if st \<noteq> PNone then Lens_bind M self st else Inr self) (\<lambda>self.
      e_bind (Lens_assert_bound self ''Lens.set'') (\<lambda>_.
      set_o M (lens self) (state self) newvalue)))"

definition Lens_modify ::
  "'o optics \<Rightarrow> 'o Lens \<Rightarrow> (pyval \<Rightarrow> pyval result) \<Rightarrow> pyval option \<Rightarrow> pyval result" where
  "Lens_modify M self func state_arg =
     (let st = default_None state_arg in
      e_bind (if st \<noteq> PNone then Lens_bind M self st else Inr self) (\<lambda>self.
      e_bind (Lens_assert_bound self ''Lens.modify'') (\<lambda>_.
      over M (lens self) (state self) func)))"

text \<open>
  \<open>call\<close> and \<open>call_mut\<close> read \<open>state\<close> (and \<open>shallow\<close>) out of \<open>**kwargs\<close> and delete
  them before the remaining keywords reach the method of the focus.
\<close>

definition kw_in :: "string \<Rightarrow> kwargs \<Rightarrow> bool" where
  "kw_in k kw = (map_of kw k \<noteq> None)"

definition kw_get :: "kwargs \<Rightarrow> string \<Rightarrow> pyval" where
  "kw_get kw k = default_None (map_of kw k)"

definition kw_del :: "kwargs \<Rightarrow> string \<Rightarrow> kwargs" where
  "kw_del kw k = filter (\<lambda>(k', v). k' \<noteq> k) kw"

text \<open>The nested function \<open>func\<close> of \<open>call\<close>: the method's return value is the new focus.\<close>

definition call_func :: "host \<Rightarrow> string \<Rightarrow> pyval list \<Rightarrow> kwargs \<Rightarrow> pyval \<Rightarrow> pyval result" where
  "call_func H method_name args kw a = getattr_call H a method_name args kw"

text \<open>
  The nested function \<open>func\<close> of \<open>call_mut\<close>, on the objects of the store: the focus is
  copied, the method is called on the copy, its return value is dropped and the copy is
  returned.
\<close>

definition call_mut_func_st ::
  "host \<Rightarrow> hval \<Rightarrow> string \<Rightarrow> hval list \<Rightarrow> hkwargs \<Rightarrow> hval \<Rightarrow> store \<Rightarrow> (hval \<times> store) result" where
  "call_mut_func_st H shallow method_name args kw a h =
     e_bind (if truthy_st h shallow then copy_copy_st a h else copy_deepcopy_st a h) (\<lambda>(a, h).
     e_bind (getattr_call_st H a method_name args kw h) (\<lambda>(r, h). Inr (a, h)))"

text \<open>
  \<open>func\<close> as \<open>modify\<close> receives it, from the optic's focus to the new focus: the focus,
  \<open>shallow\<close> and the arguments become objects of an empty store, \<open>func\<close> runs there, and
  the new focus is the value of the object it returns.
\<close>

definition call_mut_func ::
  "host \<Rightarrow> pyval \<Rightarrow> string \<Rightarrow> pyval list \<Rightarrow> kwargs \<Rightarrow> pyval \<Rightarrow> pyval result" where
  "call_mut_func H shallow method_name args kw a =
     (case load a [] of (a, h) \<Rightarrow>
      case load shallow h of (shallow, h) \<Rightarrow>
      case load_list args h of (args, h) \<Rightarrow>
      case load_list (map snd kw) h of (vs, h) \<Rightarrow>
        e_bind (call_mut_func_st H shallow method_name args (zip (map fst kw) vs) a h)
          (\<lambda>(a, h). read_value h a))"

definition Lens_call ::
  "'o optics \<Rightarrow> host \<Rightarrow> 'o Lens \<Rightarrow> string \<Rightarrow> pyval list \<Rightarrow> kwargs \<Rightarrow> pyval result" where
  "Lens_call M H self method_name args kw =
     e_bind (if kw_in ''state'' kw then Lens_bind M self (kw_get kw ''state'') else Inr self)
       (\<lambda>self.
     (let kw = (if kw_in ''state'' kw then kw_del kw ''state'' else kw)
      in Lens_modify M self (call_func H method_name args kw) None))"

definition Lens_call_mut ::
  "'o optics \<Rightarrow> host \<Rightarrow> 'o Lens \<Rightarrow> string \<Rightarrow> pyval list \<Rightarrow> kwargs \<Rightarrow> pyval result" where
  "Lens_call_mut M H self method_name args kw =
     e_bind (if kw_in ''state'' kw then Lens_bind M self (kw_get kw ''state'') else Inr self)
       (\<lambda>self.
     (let kw = (if kw_in ''state'' kw then kw_del kw ''state'' else kw);
          shallow = (if kw_in ''shallow'' kw then kw_get kw ''shallow'' else PBool False);
          kw = (if kw_in ''shallow'' kw then kw_del kw ''shallow'' else kw)
      in Lens_modify M self (call_mut_func H shallow method_name args kw) None))"

definition Lens_construct :: "'o optics \<Rightarrow> 'o Lens \<Rightarrow> pyval option \<Rightarrow> pyval result" where
  "Lens_construct M self focus_arg =
     (let focus = default_None focus_arg in
      e_bind (if focus \<noteq> PNone then Lens_bind M self focus else Inr self) (\<lambda>self.
      e_bind (Lens_assert_bound self ''Lens.construct'') (\<lambda>_.
      e_bind (re M (lens self)) (\<lambda>r. view M r (state self)))))"

definition Lens_add_lens :: "'o optics \<Rightarrow> 'o Lens \<Rightarrow> 'o other \<Rightarrow> 'o Lens result" where
  "Lens_add_lens M self other =
     (case other of
        LensLike l \<Rightarrow>
          e_bind (compose M (lens self) l) (\<lambda>c.
          Inr (Lens_init M (Some (state self)) (Some c)))
      | LensObj other \<Rightarrow>
          e_bind (Lens_assert_unbound other ''Lens.add_lens'') (\<lambda>_.
          e_bind (compose M (lens self) (lens other)) (\<lambda>c.
          Inr (Lens_init M (Some (state self)) (Some c))))
      | Other v \<Rightarrow> Inl (TypeError ''Cannot add lens of type''))"

definition Lens_flip :: "'o optics \<Rightarrow> 'o Lens \<Rightarrow> 'o Lens result" where
  "Lens_flip M self =
     e_bind (Lens_assert_unbound self ''Lens.flip'') (\<lambda>_.
     e_bind (from_o M (lens self)) (\<lambda>l.
     Inr (Lens_init M (Some (state self)) (Some l))))"

definition Lens_getattr ::
  "'o optics \<Rightarrow> host \<Rightarrow> 'o Lens \<Rightarrow> string \<Rightarrow> ('o Lens, pyval result) attribute result" where
  "Lens_getattr M H self name =
     (if endswith name ''_'' then Inl (AttributeError ''Not a valid lens constructor'')
      else if startswith name ''call_mut_''
        then Inr (Caller (\<lambda>args kw. Lens_call_mut M H self (drop 9 name) args kw))
      else if startswith name ''call_''
        then Inr (Caller (\<lambda>args kw. Lens_call M H self (drop 5 name) args kw))
      else e_bind (Lens_add_lens M self (LensLike (GetZoomAttrTraversal M name)))
             (\<lambda>l. Inr (Accessor l)))"

definition Lens_getitem :: "'o optics \<Rightarrow> 'o Lens \<Rightarrow> pyval \<Rightarrow> 'o Lens result" where
  "Lens_getitem M self name = Lens_add_lens M self (LensLike (GetitemLens M name))"

subsection \<open>The operators\<close>











section \<open>The base class of \<open>ui/base.py\<close>\<close>

text \<open>
  The base class holds the methods common to the bound and the unbound accessor.  It
  calls \<open>self.modify\<close> and \<open>self.add_lens\<close>, which its subclasses define; they are
  parameters here, \<open>'s\<close> the type of \<open>self\<close>, \<open>'t\<close> what \<open>modify\<close> returns and \<open>'l\<close> what
  \<open>add_lens\<close> returns.
\<close>

record ('s, 'o, 't, 'l) derived =
  modify :: "'s \<Rightarrow> (pyval \<Rightarrow> pyval result) \<Rightarrow> 't"
  add_lens :: "'s \<Rightarrow> 'o \<Rightarrow> 'l"


definition base_call ::
  "('s, 'o, 't, 'l) derived \<Rightarrow> host \<Rightarrow> 's \<Rightarrow> string \<Rightarrow> pyval list \<Rightarrow> kwargs \<Rightarrow> 't" where
  "base_call S H self method_name args kw = modify S self (call_func H method_name args kw)"

definition base_call_mut ::
  "('s, 'o, 't, 'l) derived \<Rightarrow> host \<Rightarrow> 's \<Rightarrow> string \<Rightarrow> pyval list \<Rightarrow> kwargs \<Rightarrow> 't" where
  "base_call_mut S H self method_name args kw =
     (let shallow = (if kw_in ''shallow'' kw then kw_get kw ''shallow'' else PBool False);
          kw = (if kw_in ''shallow'' kw then kw_del kw ''shallow'' else kw)
      in modify S self (call_mut_func H shallow method_name args kw))"

definition base_getzoomattr :: "'o optics \<Rightarrow> ('s, 'o, 't, 'l) derived \<Rightarrow> 's \<Rightarrow> string \<Rightarrow> 'l" where
  "base_getzoomattr M S self name = add_lens S self (GetZoomAttrTraversal M name)"

definition base_getitem_lens :: "'o optics \<Rightarrow> ('s, 'o, 't, 'l) derived \<Rightarrow> 's \<Rightarrow> pyval \<Rightarrow> 'l" where
  "base_getitem_lens M S self key = add_lens S self (GetitemLens M key)"

definition base_getattr ::
  "'o optics \<Rightarrow> ('s, 'o, 't, 'l) derived \<Rightarrow> host \<Rightarrow> 's \<Rightarrow> string \<Rightarrow> ('l, 't) attribute result" where
  "base_getattr M S H self name =
     (if endswith name ''_'' then Inl (AttributeError ''Not a valid lens constructor'')
      else if startswith name ''call_mut_''
        then Inr (Caller (\<lambda>args kw. base_call_mut S H self (drop 9 name) args kw))
      else if startswith name ''call_''
        then Inr (Caller (\<lambda>args kw. base_call S H self (drop 5 name) args kw))
      else Inr (Accessor (base_getzoomattr M S self name)))"

definition base_getitem :: "'o optics \<Rightarrow> ('s, 'o, 't, 'l) derived \<Rightarrow> 's \<Rightarrow> pyval \<Rightarrow> 'l" where
  "base_getitem M S self name = base_getitem_lens M S self name"



section \<open>A model of the optics module\<close>

text \<open>
  Indexing a Python sequence: a negative index counts from the end, an index out of
  range raises \<open>IndexError\<close>, a key that is not an integer raises \<open>TypeError\<close>.
\<close>

definition py_index :: "nat \<Rightarrow> int \<Rightarrow> nat result" where
  "py_index n i =
     (let j = (if i < 0 then int n + i else i)
      in if 0 \<le> j \<and> j < int n then Inr (nat j) else Inl (IndexError ''index out of range''))"

fun py_getitem :: "pyval \<Rightarrow> pyval \<Rightarrow> pyval result" where
  "py_getitem (PList xs) (PInt i) = e_bind (py_index (length xs) i) (\<lambda>j. Inr (xs ! j))"
| "py_getitem (PStr cs) (PInt i) = e_bind (py_index (length cs) i) (\<lambda>j. Inr (PStr [cs ! j]))"
| "py_getitem (PList xs) k = Inl (TypeError ''list indices must be integers'')"
| "py_getitem (PStr cs) k = Inl (TypeError ''string indices must be integers'')"
| "py_getitem s k = Inl (TypeError ''object is not subscriptable'')"

text \<open>Item assignment on a copy of the container; the container given is left as it is.\<close>

fun py_setitem :: "pyval \<Rightarrow> pyval \<Rightarrow> pyval \<Rightarrow> pyval result" where
  "py_setitem (PList xs) (PInt i) v =
     e_bind (py_index (length xs) i) (\<lambda>j. Inr (PList (xs[j := v])))"
| "py_setitem (PList xs) k v = Inl (TypeError ''list indices must be integers'')"
| "py_setitem s k v = Inl (TypeError ''object does not support item assignment'')"

fun mapE :: "('a \<Rightarrow> 'b result) \<Rightarrow> 'a list \<Rightarrow> 'b list result" where
  "mapE f [] = Inr []"
| "mapE f (x # xs) = e_bind (f x) (\<lambda>y. e_bind (mapE f xs) (\<lambda>ys. Inr (y # ys)))"

text \<open>
  Modelled from the spec: the optic kinds of the \<open>optics\<close> module, which is not among the
  sources.  The spec's data model lists eight kinds and asks for a closed tagged variant,
  each variant carrying only the functions it needs; the functions of an optic built
  from caller-supplied functions may raise.
\<close>

datatype optic =
    FoldK "pyval \<Rightarrow> pyval list result"
  | SetterK "(pyval \<Rightarrow> pyval result) \<Rightarrow> pyval \<Rightarrow> pyval result"
  | GetterK "pyval \<Rightarrow> pyval result"
  | TraversalK "pyval \<Rightarrow> pyval list result" "pyval \<Rightarrow> pyval list \<Rightarrow> pyval result"
  | PrismK "pyval \<Rightarrow> pyval option result" "pyval \<Rightarrow> pyval result"
  | LensK "pyval \<Rightarrow> pyval result" "pyval \<Rightarrow> pyval \<Rightarrow> pyval result"
  | IsomorphismK "pyval \<Rightarrow> pyval result" "pyval \<Rightarrow> pyval result"
  | EqualityK

text \<open>
  Modelled from the spec: a composite optic is an ordered sequence of optic-kind
  instances, outermost first; the empty sequence is the identity.
\<close>

type_synonym composite = "optic list"

definition capability_error :: pyerr where
  "capability_error = TypeError ''operation not supported by this optic kind''"

text \<open>
  Modelled from the spec: the foci of one optic on a state, by the table of kinds.  A
  Setter cannot be read; a Prism that misses has no focus and does not raise.
\<close>

fun kind_to_list_of :: "optic \<Rightarrow> pyval \<Rightarrow> pyval list result" where
  "kind_to_list_of (FoldK foci) s = foci s"
| "kind_to_list_of (SetterK m) s = Inl capability_error"
| "kind_to_list_of (GetterK g) s = e_bind (g s) (\<lambda>a. Inr [a])"
| "kind_to_list_of (TraversalK foci rebuild) s = foci s"
| "kind_to_list_of (PrismK unpack pack) s =
     e_bind (unpack s) (\<lambda>m. Inr (case m of None \<Rightarrow> [] | Some a \<Rightarrow> [a]))"
| "kind_to_list_of (LensK getter setter) s = e_bind (getter s) (\<lambda>a. Inr [a])"
| "kind_to_list_of (IsomorphismK forwards backwards) s = e_bind (forwards s) (\<lambda>a. Inr [a])"
| "kind_to_list_of EqualityK s = Inr [s]"

text \<open>
  Modelled from the spec: one optic's setter logic.  The function is applied to every
  focus and the optic rebuilds its state from the results; a Fold and a Getter cannot
  be modified.
\<close>

fun kind_over :: "optic \<Rightarrow> pyval \<Rightarrow> (pyval \<Rightarrow> pyval result) \<Rightarrow> pyval result" where
  "kind_over (FoldK foci) s f = Inl capability_error"
| "kind_over (SetterK m) s f = m f s"
| "kind_over (GetterK g) s f = Inl capability_error"
| "kind_over (TraversalK foci rebuild) s f =
     e_bind (foci s) (\<lambda>as. e_bind (mapE f as) (\<lambda>bs. rebuild s bs))"
| "kind_over (PrismK unpack pack) s f =
     e_bind (unpack s) (\<lambda>m. case m of None \<Rightarrow> Inr s | Some a \<Rightarrow> e_bind (f a) pack)"
| "kind_over (LensK getter setter) s f =
     e_bind (getter s) (\<lambda>a. e_bind (f a) (\<lambda>b. setter s b))"
| "kind_over (IsomorphismK forwards backwards) s f =
     e_bind (forwards s) (\<lambda>a. e_bind (f a) backwards)"
| "kind_over EqualityK s f = f s"

text \<open>
  Modelled from the spec: the table of kinds.  Every kind but the Setter can be read,
  every kind but the Fold and the Getter can be set and modified.  A composite has the
  weaker kind of its optics: it can be read when each of them can, and modified when
  each of them can.
\<close>

fun readable :: "optic \<Rightarrow> bool" where
  "readable (SetterK m) = False"
| "readable k = True"

fun writable :: "optic \<Rightarrow> bool" where
  "writable (FoldK foci) = False"
| "writable (GetterK g) = False"
| "writable k = True"

text \<open>
  Modelled from the spec: \<open>to_list_of\<close> runs the optics left to right, expanding the
  list of substates at each step, so the foci come out in depth-first order.  An
  operation the kind of the composite does not support raises the capability error at
  the call.
\<close>

primrec foci_of :: "composite \<Rightarrow> pyval \<Rightarrow> pyval list result" where
  "foci_of [] s = Inr [s]"
| "foci_of (k # ks) s =
     e_bind (kind_to_list_of k s) (\<lambda>as.
     e_bind (mapE (foci_of ks) as) (\<lambda>xss. Inr (concat xss)))"

definition chain_to_list_of :: "composite \<Rightarrow> pyval \<Rightarrow> pyval list result" where
  "chain_to_list_of c s = (if list_all readable c then foci_of c s else Inl capability_error)"

text \<open>
  Modelled from the spec: \<open>over\<close> applies the function to every focus reachable through
  the chain and rebuilds inside-out, each wrapping optic's setter receiving the original
  substate and the rebuilt inner value.  A composite that holds a Fold or a Getter
  cannot be modified, and \<open>over\<close> raises the capability error at the call.
\<close>

primrec rebuild_with :: "composite \<Rightarrow> pyval \<Rightarrow> (pyval \<Rightarrow> pyval result) \<Rightarrow> pyval result" where
  "rebuild_with [] s f = f s"
| "rebuild_with (k # ks) s f = kind_over k s (\<lambda>a. rebuild_with ks a f)"

definition chain_over :: "composite \<Rightarrow> pyval \<Rightarrow> (pyval \<Rightarrow> pyval result) \<Rightarrow> pyval result" where
  "chain_over c s f = (if list_all writable c then rebuild_with c s f else Inl capability_error)"

text \<open>
  Modelled from the spec: the spec gives the optic no \<open>set\<close> of its own and defines
  setting as modifying with the constant function.
\<close>

definition chain_set :: "composite \<Rightarrow> pyval \<Rightarrow> pyval \<Rightarrow> pyval result" where
  "chain_set c s v = chain_over c s (\<lambda>_. Inr v)"

text \<open>
  Modelled from the spec: \<open>view\<close> merges all foci with the append of the focus's kind:
  list concatenation, string concatenation, numeric addition.  The spec does not say
  what merging no focus gives; the model raises.
\<close>

fun mappend :: "pyval \<Rightarrow> pyval \<Rightarrow> pyval result" where
  "mappend (PList xs) (PList ys) = Inr (PList (xs @ ys))"
| "mappend (PStr xs) (PStr ys) = Inr (PStr (xs @ ys))"
| "mappend (PInt x) (PInt y) = Inr (PInt (x + y))"
| "mappend x y = Inl (TypeError ''no monoid for these values'')"

fun mconcat :: "pyval list \<Rightarrow> pyval result" where
  "mconcat [] = Inl (TypeError ''no focus to merge'')"
| "mconcat [x] = Inr x"
| "mconcat (x # y # ys) = e_bind (mconcat (y # ys)) (\<lambda>r. mappend x r)"

definition chain_view :: "composite \<Rightarrow> pyval \<Rightarrow> pyval result" where
  "chain_view c s = e_bind (chain_to_list_of c s) mconcat"

text \<open>
  Modelled from the spec: \<open>re\<close> is valid only when every optic of the chain is an
  Isomorphism or an Equality; it swaps the directions of each and reverses the chain
  end to end, and fails with a capability error otherwise.
\<close>

fun kind_re :: "optic \<Rightarrow> optic result" where
  "kind_re (IsomorphismK forwards backwards) = Inr (IsomorphismK backwards forwards)"
| "kind_re EqualityK = Inr EqualityK"
| "kind_re k = Inl capability_error"

definition chain_re :: "composite \<Rightarrow> composite result" where
  "chain_re c = e_bind (mapE kind_re c) (\<lambda>ks. Inr (rev ks))"

text \<open>
  Modelled from the spec: \<open>compose\<close> appends the second sequence after the first, and
  fails with a capability error when no operation could use the result: a write-only
  Setter together with a read-only Fold or Getter.
\<close>

definition chain_compose :: "composite \<Rightarrow> composite \<Rightarrow> composite result" where
  "chain_compose a b =
     (let c = a @ b
      in if list_all readable c \<or> list_all writable c then Inr c else Inl capability_error)"

text \<open>
  Modelled from the spec: index access is a plain item-access optic, of kind Lens.  The
  get-or-zoom optic follows an attribute; the values of this model carry no attributes,
  so following one raises \<open>AttributeError\<close>.
\<close>

definition item_access :: "pyval \<Rightarrow> composite" where
  "item_access key = [LensK (\<lambda>s. py_getitem s key) (\<lambda>s v. py_setitem s key v)]"

definition get_or_zoom :: "string \<Rightarrow> composite" where
  "get_or_zoom name =
     [TraversalK (\<lambda>s. Inl (AttributeError name)) (\<lambda>s bs. Inl (AttributeError name))]"

definition optics_model :: "composite optics" where
  "optics_model =
     \<lparr>TrivialIso = [],
      GetitemLens = item_access,
      GetZoomAttrTraversal = get_or_zoom,
      compose = chain_compose,
      to_list_of = chain_to_list_of,
      view = chain_view,
      set_o = chain_set,
      over = chain_over,
      re = chain_re,
      from_o = chain_re\<rparr>"

text \<open>
  Modelled from the spec: the optic's \<open>set\<close> is not described apart from the facade's,
  which the spec defines as modifying with the constant function.  This is that
  contract, for an optics module given as a parameter.
\<close>

definition set_by_over :: "'o optics \<Rightarrow> bool" where
  "set_by_over M = (\<forall>l s v. set_o M l s v = over M l s (\<lambda>_. Inr v))"

text \<open>
  Modelled from the spec: the identity law is asked of well-behaved optics.  An optic is
  well behaved at a state when its setter logic gives the state back from the foci it
  read there: a Lens's setter from its getter's value, an Isomorphism's backward
  function from its forward function's value, a Prism's pack from what it unpacked, a
  Traversal's rebuild from its foci, and a Setter's modify from the function that
  returns its argument.  A Fold and a Getter have no setter logic.
\<close>

fun kind_lawful :: "optic \<Rightarrow> pyval \<Rightarrow> bool" where
  "kind_lawful (FoldK foci) s = False"
| "kind_lawful (SetterK m) s = (m Inr s = Inr s)"
| "kind_lawful (GetterK g) s = False"
| "kind_lawful (TraversalK foci rebuild) s =
     (case foci s of Inl e \<Rightarrow> False | Inr as \<Rightarrow> rebuild s as = Inr s)"
| "kind_lawful (PrismK unpack pack) s =
     (case unpack s of Inl e \<Rightarrow> False | Inr None \<Rightarrow> True | Inr (Some a) \<Rightarrow> pack a = Inr s)"
| "kind_lawful (LensK getter setter) s =
     (case getter s of Inl e \<Rightarrow> False | Inr a \<Rightarrow> setter s a = Inr s)"
| "kind_lawful (IsomorphismK forwards backwards) s =
     (case forwards s of Inl e \<Rightarrow> False | Inr a \<Rightarrow> backwards a = Inr s)"
| "kind_lawful EqualityK s = True"

text \<open>
  A chain is well behaved at a state when each optic is, at every substate it reaches.
  A Setter cannot list the substates it reaches, so the optics after a Setter are to be
  well behaved at every state.
\<close>

primrec well_behaved :: "composite \<Rightarrow> pyval \<Rightarrow> bool" where
  "well_behaved [] s = True"
| "well_behaved (k # ks) s =
     (kind_lawful k s \<and>
      (if readable k
       then (case kind_to_list_of k s of Inl e \<Rightarrow> False | Inr as \<Rightarrow> list_all (well_behaved ks) as)
       else (\<forall>a. well_behaved ks a)))"

text \<open>
  Two optics of the docstrings, in the model: \<open>listwrap_\<close>, the isomorphism between a
  state and the one-element list holding it, and \<open>f_\<close>, the getter of a function; and
  the Prism that matches no state.
\<close>

definition listwrap :: composite where
  "listwrap = [IsomorphismK (\<lambda>s. Inr (PList [s])) (\<lambda>s. py_getitem s (PInt 0))]"

definition getter_of :: "(pyval \<Rightarrow> pyval result) \<Rightarrow> composite" where
  "getter_of g = [GetterK g]"

definition no_match :: composite where
  "no_match = [PrismK (\<lambda>s. Inr None) Inr]"

section \<open>A fragment of the Python runtime\<close>

text \<open>
  The methods the examples call on a focus: \<open>sort\<close> (of integers), \<open>reverse\<close>, \<open>append\<close>
  and \<open>count\<close> (of an integer) on lists, \<open>__neg__\<close>, \<open>__add__\<close> and \<open>__eq__\<close> on integers,
  \<open>__add__\<close> and \<open>__eq__\<close> on strings.  \<open>int.__add__\<close>, \<open>int.__eq__\<close> and \<open>str.__eq__\<close>
  return \<open>NotImplemented\<close> for an operand of another type; a \<open>bool\<close> is an \<open>int\<close>.
\<close>

fun the_hint :: "hval \<Rightarrow> int option" where
  "the_hint (HInt i) = Some i"
| "the_hint v = None"

fun int_of :: "hval \<Rightarrow> int option" where
  "int_of (HInt i) = Some i"
| "int_of (HBool b) = Some (if b then 1 else 0)"
| "int_of v = None"

definition py_list_method ::
  "store \<Rightarrow> string \<Rightarrow> hval list \<Rightarrow> hval list \<Rightarrow> hkwargs \<Rightarrow> (hval \<times> hval list) result" where
  "py_list_method h name xs args kw =
     (if kw \<noteq> [] then Inl (TypeError ''takes no keyword arguments'')
      else if name = ''sort'' \<and> args = [] then
        (case those (map the_hint xs) of
           Some is \<Rightarrow> Inr (HNone, map HInt (sort is))
         | None \<Rightarrow> Inl (TypeError ''unorderable elements''))
      else if name = ''reverse'' \<and> args = [] then Inr (HNone, rev xs)
      else if name = ''append'' \<and> length args = 1 then Inr (HNone, xs @ args)
      else if name = ''count'' \<and> length args = 1 \<and> int_of (hd args) \<noteq> None then
        Inr (HInt (int (length (filter (\<lambda>x. int_of x = int_of (hd args)) xs))), xs)
      else Inl (AttributeError name))"

definition py_int_method :: "int \<Rightarrow> string \<Rightarrow> hval list \<Rightarrow> hval result" where
  "py_int_method i name args =
     (if name = ''__neg__'' \<and> args = [] then Inr (HInt (- i))
      else if name = ''__add__'' \<and> length args = 1 then
        (case int_of (hd args) of
           Some j \<Rightarrow> Inr (HInt (i + j))
         | None \<Rightarrow> Inr HNotImplemented)
      else if name = ''__eq__'' \<and> length args = 1 then
        (case int_of (hd args) of
           Some j \<Rightarrow> Inr (HBool (i = j))
         | None \<Rightarrow> Inr HNotImplemented)
      else Inl (AttributeError name))"

definition py_str_method :: "string \<Rightarrow> string \<Rightarrow> hval list \<Rightarrow> hval result" where
  "py_str_method s name args =
     (if name = ''__add__'' \<and> length args = 1 then
        (case hd args of
           HStr t \<Rightarrow> Inr (HStr (s @ t))
         | v \<Rightarrow> Inl (TypeError ''can only concatenate str to str''))
      else if name = ''__eq__'' \<and> length args = 1 then
        (case hd args of
           HStr t \<Rightarrow> Inr (HBool (s = t))
         | v \<Rightarrow> Inr HNotImplemented)
      else Inl (AttributeError name))"

definition py_atom_method :: "hval \<Rightarrow> string \<Rightarrow> hval list \<Rightarrow> hkwargs \<Rightarrow> hval result" where
  "py_atom_method a name args kw =
     (if kw \<noteq> [] then Inl (TypeError ''takes no keyword arguments'')
      else case a of
        HInt i \<Rightarrow> py_int_method i name args
      | HStr s \<Rightarrow> py_str_method s name args
      | v \<Rightarrow> Inl (AttributeError name))"

definition py_host :: host where
  "py_host = \<lparr>list_method = py_list_method, atom_method = py_atom_method\<rparr>"






section \<open>Sharing between objects\<close>











section \<open>Properties of the facade\<close>

lemma e_bind_simps [simp]:
  "e_bind (Inl e) f = Inl e"
  "e_bind (Inr x) f = f x"
  by (simp_all add: e_bind_def)

lemmas facade_defs =
  Lens_init_def Lens_assert_bound_def Lens_assert_unbound_def Lens_bind_def
  default_None_def

subsection \<open>Reading the focus\<close>

text \<open>
  Claim C1.  On an accessor bound to a state, \<open>get()\<close> is the first element of the list
  \<open>get_all()\<close> returns: when that list is not empty \<open>get()\<close> returns its head, when the
  chain resolves to no focus \<open>get()\<close> raises \<open>IndexError\<close>, and an exception raised while
  the optic lists the foci reaches the caller of either.
\<close>

theorem get_is_first_of_get_all:
  "state a \<noteq> PNone \<Longrightarrow>
   Lens_get M a None =
     (case Lens_get_all M a None of
        Inl e \<Rightarrow> Inl e
      | Inr [] \<Rightarrow> Inl (IndexError ''list index out of range'')
      | Inr (x # xs) \<Rightarrow> Inr x)"
  by (simp add: Lens_get_def Lens_get_all_def facade_defs py_first_def
      split: sum.splits list.splits)

theorem get_is_first_of_get_all_witness:
  "state \<lparr>state = PList [PInt 1, PInt 2, PInt 3], lens = item_access (PInt 0)\<rparr> \<noteq> PNone
   \<and> Lens_get_all optics_model
         \<lparr>state = PList [PInt 1, PInt 2, PInt 3], lens = item_access (PInt 0)\<rparr> None
       = Inr [PInt 1]
   \<and> Lens_get optics_model
         \<lparr>state = PList [PInt 1, PInt 2, PInt 3], lens = item_access (PInt 0)\<rparr> None
       = Inr (PInt 1)
   \<and> Lens_get_all optics_model
         \<lparr>state = PInt 1, lens = [PrismK (\<lambda>s. Inr None) Inr]\<rparr> None
       = Inr []
   \<and> Lens_get optics_model
         \<lparr>state = PInt 1, lens = [PrismK (\<lambda>s. Inr None) Inr]\<rparr> None
       = Inl (IndexError ''list index out of range'')"
  using
    get_is_first_of_get_all
      [of "\<lparr>state = PList [PInt 1, PInt 2, PInt 3], lens = item_access (PInt 0)\<rparr>"
          optics_model]
    get_is_first_of_get_all
      [of "\<lparr>state = PInt 1, lens = [PrismK (\<lambda>s. Inr None) Inr]\<rparr>" optics_model]
  by (simp add: Lens_get_all_def facade_defs optics_model_def chain_to_list_of_def
      item_access_def py_index_def)

subsection \<open>Binding\<close>

text \<open>
  Claim C3.  On an unbound accessor, each of \<open>get\<close>, \<open>get_all\<close>, \<open>get_monoid\<close>, \<open>set\<close>,
  \<open>modify\<close> and \<open>construct\<close>, called without a state, raises the state-binding
  \<open>ValueError\<close> that names the operation; none of them returns a value.
\<close>

theorem unbound_query_raises:
  "state a = PNone \<Longrightarrow>
     Lens_get M a None = Inl (ValueError ''Lens.get requires a bound lens'')
   \<and> Lens_get_all M a None = Inl (ValueError ''Lens.get_all requires a bound lens'')
   \<and> Lens_get_monoid M a None = Inl (ValueError ''Lens.get_monoid requires a bound lens'')
   \<and> Lens_set M a v None = Inl (ValueError ''Lens.set requires a bound lens'')
   \<and> Lens_modify M a f None = Inl (ValueError ''Lens.modify requires a bound lens'')
   \<and> Lens_construct M a None = Inl (ValueError ''Lens.construct requires a bound lens'')"
  by (simp add: Lens_get_def Lens_get_all_def Lens_get_monoid_def Lens_set_def
      Lens_modify_def Lens_construct_def facade_defs)

theorem unbound_query_raises_witness:
  "state \<lparr>state = PNone, lens = item_access (PInt 1)\<rparr> = PNone
   \<and> Lens_get optics_model \<lparr>state = PNone, lens = item_access (PInt 1)\<rparr> None
       = Inl (ValueError ''Lens.get requires a bound lens'')
   \<and> Lens_set optics_model \<lparr>state = PNone, lens = item_access (PInt 1)\<rparr> (PInt 4) None
       = Inl (ValueError ''Lens.set requires a bound lens'')
   \<and> Lens_modify optics_model \<lparr>state = PNone, lens = item_access (PInt 1)\<rparr> Inr None
       = Inl (ValueError ''Lens.modify requires a bound lens'')"
  using unbound_query_raises
    [of "\<lparr>state = PNone, lens = item_access (PInt 1)\<rparr>" optics_model "PInt 4" Inr]
  by simp

text \<open>
  Claim C4.  \<open>bind\<close> on an accessor that is already bound raises the state-binding
  \<open>ValueError\<close>, whatever the second state; on an unbound accessor it returns a new
  accessor holding the same optic and the given state.  Accessors are values here, as
  \<open>bind\<close> assigns to no field of \<open>self\<close>: the accessor given is the same before and after.
\<close>

theorem bind_once:
  "(state a \<noteq> PNone \<longrightarrow>
      Lens_bind M a s = Inl (ValueError ''Lens.bind requires an unbound lens''))
   \<and> (state a = PNone \<longrightarrow>
      Lens_bind M a s = Inr \<lparr>state = s, lens = lens a\<rparr>)"
  by (simp add: facade_defs)

theorem bind_once_witness:
  "Lens_bind optics_model \<lparr>state = PList [PInt 1], lens = item_access (PInt 0)\<rparr> (PInt 7)
     = Inl (ValueError ''Lens.bind requires an unbound lens'')
   \<and> Lens_bind optics_model \<lparr>state = PNone, lens = item_access (PInt 1)\<rparr>
       (PList [PInt 1, PInt 2, PInt 3])
     = Inr \<lparr>state = PList [PInt 1, PInt 2, PInt 3], lens = item_access (PInt 1)\<rparr>"
  using
    bind_once [of "\<lparr>state = PList [PInt 1], lens = item_access (PInt 0)\<rparr>" optics_model "PInt 7"]
    bind_once [of "\<lparr>state = PNone, lens = item_access (PInt 1)\<rparr>" optics_model
                  "PList [PInt 1, PInt 2, PInt 3]"]
  by simp

text \<open>
  Claim C10.  \<open>None\<close> cannot be a bound state.  An accessor constructed with state
  \<open>None\<close> is the accessor constructed with no state, binding an unbound accessor to
  \<open>None\<close> returns an unbound accessor, and every query on such an accessor raises the
  ``requires a bound lens'' error.  Passing \<open>state=None\<close> to \<open>get\<close>, \<open>get_all\<close>,
  \<open>get_monoid\<close>, \<open>set\<close> or \<open>modify\<close> is the same as passing no state.
\<close>

theorem none_state_is_unbound:
  "Lens_init M (Some PNone) l = Lens_init M None l
   \<and> Lens_bind M (Lens_init M None l) PNone = Inr (Lens_init M None l)
   \<and> Lens_get M (Lens_init M (Some PNone) l) None
       = Inl (ValueError ''Lens.get requires a bound lens'')
   \<and> Lens_get_all M (Lens_init M (Some PNone) l) None
       = Inl (ValueError ''Lens.get_all requires a bound lens'')
   \<and> Lens_get_monoid M (Lens_init M (Some PNone) l) None
       = Inl (ValueError ''Lens.get_monoid requires a bound lens'')
   \<and> Lens_set M (Lens_init M (Some PNone) l) v None
       = Inl (ValueError ''Lens.set requires a bound lens'')
   \<and> Lens_modify M (Lens_init M (Some PNone) l) f None
       = Inl (ValueError ''Lens.modify requires a bound lens'')
   \<and> Lens_construct M (Lens_init M (Some PNone) l) None
       = Inl (ValueError ''Lens.construct requires a bound lens'')
   \<and> Lens_get M a (Some PNone) = Lens_get M a None
   \<and> Lens_get_all M a (Some PNone) = Lens_get_all M a None
   \<and> Lens_get_monoid M a (Some PNone) = Lens_get_monoid M a None
   \<and> Lens_set M a v (Some PNone) = Lens_set M a v None
   \<and> Lens_modify M a f (Some PNone) = Lens_modify M a f None"
  by (simp add: Lens_get_def Lens_get_all_def Lens_get_monoid_def Lens_set_def
      Lens_modify_def Lens_construct_def facade_defs)

subsection \<open>Setting and modifying\<close>

lemma model_set_by_over: "set_by_over optics_model"
  by (simp add: set_by_over_def optics_model_def chain_set_def)

text \<open>
  Claim C2.  On a bound accessor \<open>set(v)\<close> returns what \<open>modify(lambda _: v)\<close> returns,
  with or without a state argument.  \<open>set\<close> calls the optic's \<open>set\<close> and \<open>modify\<close> its
  \<open>over\<close>: the two agree for every optics module whose \<open>set\<close> is \<open>over\<close> with the
  constant function.
\<close>

theorem set_is_modify_const:
  "set_by_over M \<Longrightarrow> state a \<noteq> PNone \<Longrightarrow>
   Lens_set M a v st = Lens_modify M a (\<lambda>_. Inr v) st"
  by (cases st) (simp_all add: set_by_over_def Lens_set_def Lens_modify_def facade_defs Let_def)

theorem set_is_modify_const_witness:
  "set_by_over optics_model
   \<and> state \<lparr>state = PList [PInt 1, PInt 2, PInt 3], lens = item_access (PInt 1)\<rparr> \<noteq> PNone
   \<and> Lens_set optics_model
         \<lparr>state = PList [PInt 1, PInt 2, PInt 3], lens = item_access (PInt 1)\<rparr> (PInt 4) None
       = Inr (PList [PInt 1, PInt 4, PInt 3])
   \<and> Lens_modify optics_model
         \<lparr>state = PList [PInt 1, PInt 2, PInt 3], lens = item_access (PInt 1)\<rparr>
         (\<lambda>_. Inr (PInt 4)) None
       = Inr (PList [PInt 1, PInt 4, PInt 3])"
  using model_set_by_over
    set_is_modify_const
      [of optics_model "\<lparr>state = PList [PInt 1, PInt 2, PInt 3], lens = item_access (PInt 1)\<rparr>"
          "PInt 4" None]
  by (simp add: Lens_modify_def facade_defs optics_model_def chain_over_def item_access_def
      py_index_def)

lemma mapE_id: "list_all (\<lambda>a. g a = Inr a) as \<Longrightarrow> mapE g as = Inr as"
  by (induction as) simp_all

lemma kind_over_id:
  "readable k \<Longrightarrow> kind_lawful k s \<Longrightarrow> kind_to_list_of k s = Inr as \<Longrightarrow>
   list_all (\<lambda>a. g a = Inr a) as \<Longrightarrow> kind_over k s g = Inr s"
  by (cases k) (auto simp: mapE_id split: sum.splits option.splits)

lemma rebuild_with_id: "well_behaved c s \<Longrightarrow> rebuild_with c s Inr = Inr s"
proof (induction c arbitrary: s)
  case Nil
  show ?case by simp
next
  case (Cons k ks)
  show ?case
  proof (cases "readable k")
    case True
    with Cons.prems obtain as where
      lawful: "kind_lawful k s" and foci: "kind_to_list_of k s = Inr as"
      and rest: "list_all (well_behaved ks) as"
      by (auto split: sum.splits)
    from rest Cons.IH have "list_all (\<lambda>a. rebuild_with ks a Inr = Inr a) as"
      by (simp add: list_all_iff)
    with True lawful foci show ?thesis
      by (simp add: kind_over_id)
  next
    case False
    then obtain m where k: "k = SetterK m"
      by (cases k) simp_all
    from Cons.prems have law: "m Inr s = Inr s" and rest: "\<And>a. well_behaved ks a"
      by (simp_all add: k)
    have "(\<lambda>a. rebuild_with ks a Inr) = Inr"
      by (rule ext) (simp add: Cons.IH rest)
    with law show ?thesis
      by (simp add: k)
  qed
qed

text \<open>
  Claim C9, as stated: \<open>modify\<close> with the identity function returns the state, for
  every optic chain.  It fails for a chain holding a Getter, which cannot be modified:
  \<open>lens(-1).f_(lambda x: x).modify(lambda x: x)\<close> raises the capability error.
\<close>

theorem modify_identity_counterexample:
  "Lens_modify optics_model \<lparr>state = PInt (- 1), lens = getter_of Inr\<rparr> Inr None
     = Inl capability_error
   \<and> Lens_modify optics_model \<lparr>state = PInt (- 1), lens = getter_of Inr\<rparr> Inr None
     \<noteq> Inr (state \<lparr>state = PInt (- 1), lens = getter_of Inr\<rparr>)"
  by (simp add: Lens_modify_def facade_defs optics_model_def chain_over_def getter_of_def)

text \<open>
  Claim C9, amended.  For every chain of optics that holds no Fold and no Getter and is
  well behaved at the state it is bound to, \<open>modify\<close> with the identity function returns
  a state equal to that state.  On a chain that holds a Fold or a Getter \<open>modify\<close> raises
  the capability error, whatever the function and whatever the state.
\<close>

theorem modify_identity:
  "state a \<noteq> PNone \<Longrightarrow>
   (list_all writable (lens a) \<and> well_behaved (lens a) (state a) \<longrightarrow>
      Lens_modify optics_model a Inr None = Inr (state a))
   \<and> (\<not> list_all writable (lens a) \<longrightarrow>
      Lens_modify optics_model a f None = Inl capability_error)"
  by (simp add: Lens_modify_def facade_defs optics_model_def chain_over_def rebuild_with_id)

theorem modify_identity_witness:
  "state \<lparr>state = PList [PList [PInt 0, PInt 1], PList [PInt 2, PInt 3]],
          lens = item_access (PInt 1) @ item_access (PInt 0)\<rparr> \<noteq> PNone
   \<and> list_all writable (item_access (PInt 1) @ item_access (PInt 0))
   \<and> well_behaved (item_access (PInt 1) @ item_access (PInt 0))
        (PList [PList [PInt 0, PInt 1], PList [PInt 2, PInt 3]])
   \<and> Lens_modify optics_model
        \<lparr>state = PList [PList [PInt 0, PInt 1], PList [PInt 2, PInt 3]],
         lens = item_access (PInt 1) @ item_access (PInt 0)\<rparr> Inr None
      = Inr (PList [PList [PInt 0, PInt 1], PList [PInt 2, PInt 3]])
   \<and> list_all writable [SetterK (\<lambda>f s. f s)]
   \<and> well_behaved [SetterK (\<lambda>f s. f s)] (PInt 1)
   \<and> Lens_modify optics_model \<lparr>state = PInt 1, lens = [SetterK (\<lambda>f s. f s)]\<rparr> Inr None
      = Inr (PInt 1)
   \<and> \<not> list_all writable (no_match @ getter_of Inr)
   \<and> Lens_modify optics_model \<lparr>state = PInt 1, lens = no_match @ getter_of Inr\<rparr> Inr None
      = Inl capability_error"
proof -
  have nil: "well_behaved [] = (\<lambda>s. True)"
    by (rule ext) simp
  show ?thesis
    using
      modify_identity
        [of "\<lparr>state = PList [PList [PInt 0, PInt 1], PList [PInt 2, PInt 3]],
              lens = item_access (PInt 1) @ item_access (PInt 0)\<rparr>" Inr]
      modify_identity [of "\<lparr>state = PInt 1, lens = [SetterK (\<lambda>f s. f s)]\<rparr>" Inr]
      modify_identity [of "\<lparr>state = PInt 1, lens = no_match @ getter_of Inr\<rparr>" Inr]
    by (simp add: item_access_def py_index_def no_match_def getter_of_def nil)
qed

subsection \<open>Constructing a state\<close>

text \<open>
  Claim C8, as stated: on every accessor whose chain is reversible, \<open>construct(focus)\<close>
  returns \<open>re().view(focus)\<close>.  It fails on a bound accessor: \<open>construct\<close> binds the
  accessor to the focus, and \<open>bind\<close> refuses an accessor that is bound.
\<close>

theorem construct_counterexample:
  "mapE kind_re listwrap = Inr [IsomorphismK (\<lambda>s. py_getitem s (PInt 0)) (\<lambda>s. Inr (PList [s]))]
   \<and> e_bind (re optics_model listwrap) (\<lambda>r. view optics_model r (PList [PInt 1])) = Inr (PInt 1)
   \<and> Lens_construct optics_model \<lparr>state = PInt 0, lens = listwrap\<rparr> (Some (PList [PInt 1]))
     = Inl (ValueError ''Lens.bind requires an unbound lens'')"
  by (simp add: Lens_construct_def facade_defs optics_model_def listwrap_def chain_re_def
      chain_view_def chain_to_list_of_def py_index_def)

text \<open>
  Claim C8, amended.  For a focus other than \<open>None\<close>: on an unbound accessor
  \<open>construct(focus)\<close> is \<open>re().view(focus)\<close>, the state the reversed chain builds from
  the focus, or the error \<open>re()\<close> raises when the chain has an optic that cannot be
  reversed; on a bound accessor \<open>construct(focus)\<close> raises the state-binding error and
  \<open>construct()\<close> is \<open>re().view\<close> of the bound state.
\<close>

theorem construct_from_focus:
  "focus \<noteq> PNone \<Longrightarrow>
   (state a = PNone \<longrightarrow>
      Lens_construct M a (Some focus) = e_bind (re M (lens a)) (\<lambda>r. view M r focus))
   \<and> (state a \<noteq> PNone \<longrightarrow>
      Lens_construct M a (Some focus) = Inl (ValueError ''Lens.bind requires an unbound lens'')
      \<and> Lens_construct M a None = e_bind (re M (lens a)) (\<lambda>r. view M r (state a)))"
  by (simp add: Lens_construct_def facade_defs)

theorem construct_from_focus_witness:
  "PList [PInt 1] \<noteq> PNone
   \<and> Lens_construct optics_model \<lparr>state = PNone, lens = listwrap\<rparr> (Some (PList [PInt 1]))
       = Inr (PInt 1)
   \<and> Lens_construct optics_model \<lparr>state = PNone, lens = item_access (PInt 0)\<rparr>
         (Some (PList [PInt 1]))
       = Inl capability_error
   \<and> Lens_construct optics_model \<lparr>state = PList [PInt 5], lens = listwrap\<rparr>
         (Some (PList [PInt 1]))
       = Inl (ValueError ''Lens.bind requires an unbound lens'')
   \<and> Lens_construct optics_model \<lparr>state = PList [PInt 5], lens = listwrap\<rparr> None
       = Inr (PInt 5)"
  using
    construct_from_focus [of "PList [PInt 1]" "\<lparr>state = PNone, lens = listwrap\<rparr>" optics_model]
    construct_from_focus
      [of "PList [PInt 1]" "\<lparr>state = PNone, lens = item_access (PInt 0)\<rparr>" optics_model]
    construct_from_focus
      [of "PList [PInt 1]" "\<lparr>state = PList [PInt 5], lens = listwrap\<rparr>" optics_model]
  by (simp add: optics_model_def listwrap_def item_access_def chain_re_def chain_view_def
      chain_to_list_of_def py_index_def)

subsection \<open>Operators\<close>











subsection \<open>Attribute and index access\<close>

lemma endswith_underscore: "endswith s ''_'' \<longleftrightarrow> s \<noteq> [] \<and> last s = CHR ''_''"
proof (cases s rule: rev_cases)
  case Nil
  then show ?thesis by (simp add: endswith_def)
next
  case (snoc ys y)
  then show ?thesis by (auto simp: endswith_def)
qed

lemma endswith_append: "m \<noteq> [] \<Longrightarrow> endswith (p @ m) ''_'' = endswith m ''_''"
  by (simp add: endswith_underscore)

text \<open>
  Claim C7.  \<open>__getattr__\<close>, which Python calls for a name that is not otherwise
  defined: a name ending in an underscore raises \<open>AttributeError\<close>; otherwise
  \<open>call_mut_\<close> followed by \<open>m\<close> gives the callable \<open>call_mut\<close> with method name \<open>m\<close>;
  otherwise \<open>call_\<close> followed by \<open>m\<close> gives the callable \<open>call\<close> with method name \<open>m\<close>;
  otherwise the result is the accessor with the same state whose optic is composed with
  the get-or-zoom optic of the name.  \<open>accessor[key]\<close> is the accessor composed with the
  item-access optic of the key.  The same holds of the base class, over the \<open>add_lens\<close>
  of its subclass.
\<close>

theorem getattr_dispatch:
  "Lens_getattr M H self (n @ ''_'') = Inl (AttributeError ''Not a valid lens constructor'')
   \<and> (m \<noteq> [] \<and> \<not> endswith m ''_'' \<longrightarrow>
        Lens_getattr M H self (''call_mut_'' @ m) = Inr (Caller (Lens_call_mut M H self m)))
   \<and> (m \<noteq> [] \<and> \<not> endswith m ''_'' \<and> \<not> startswith m ''mut_'' \<longrightarrow>
        Lens_getattr M H self (''call_'' @ m) = Inr (Caller (Lens_call M H self m)))
   \<and> (\<not> endswith name ''_'' \<and> \<not> startswith name ''call_'' \<longrightarrow>
        Lens_getattr M H self name =
          e_bind (compose M (lens self) (GetZoomAttrTraversal M name))
            (\<lambda>c. Inr (Accessor \<lparr>state = state self, lens = c\<rparr>)))
   \<and> Lens_getitem M self key =
        e_bind (compose M (lens self) (GetitemLens M key))
          (\<lambda>c. Inr \<lparr>state = state self, lens = c\<rparr>)
   \<and> base_getattr M S H b (n @ ''_'') = Inl (AttributeError ''Not a valid lens constructor'')
   \<and> (m \<noteq> [] \<and> \<not> endswith m ''_'' \<longrightarrow>
        base_getattr M S H b (''call_mut_'' @ m) = Inr (Caller (base_call_mut S H b m)))
   \<and> (m \<noteq> [] \<and> \<not> endswith m ''_'' \<and> \<not> startswith m ''mut_'' \<longrightarrow>
        base_getattr M S H b (''call_'' @ m) = Inr (Caller (base_call S H b m)))
   \<and> (\<not> endswith name ''_'' \<and> \<not> startswith name ''call_'' \<longrightarrow>
        base_getattr M S H b name = Inr (Accessor (add_lens S b (GetZoomAttrTraversal M name))))
   \<and> base_getitem M S b key = add_lens S b (GetitemLens M key)"
proof -
  have under: "endswith (n @ ''_'') ''_''"
    by (simp add: endswith_def)
  have mut: "startswith (''call_mut_'' @ m) ''call_mut_''" for m
    by (simp add: startswith_def)
  have call: "startswith (''call_'' @ m) ''call_''" for m
    by (simp add: startswith_def)
  have not_mut: "startswith (''call_'' @ m) ''call_mut_'' = startswith m ''mut_''" for m
    by (simp add: startswith_def)
  have weaker: "\<not> startswith name ''call_'' \<Longrightarrow> \<not> startswith name ''call_mut_''"
    by (auto simp: startswith_def dest: arg_cong [where f = "take 5"])
  have add: "Lens_add_lens M self (LensLike l) =
      e_bind (compose M (lens self) l) (\<lambda>c. Inr \<lparr>state = state self, lens = c\<rparr>)" for l
    by (simp add: Lens_add_lens_def facade_defs)
  have zoom:
    "e_bind (e_bind (compose M (lens self) l) (\<lambda>c. Inr \<lparr>state = state self, lens = c\<rparr>))
       (\<lambda>l. Inr (Accessor l)) =
     e_bind (compose M (lens self) l) (\<lambda>c. Inr (Accessor \<lparr>state = state self, lens = c\<rparr>))"
    for l
    by (cases "compose M (lens self) l") simp_all
  show ?thesis
    using under weaker
    by (simp add: Lens_getattr_def Lens_getitem_def base_getattr_def base_getitem_def
        base_getzoomattr_def base_getitem_lens_def endswith_append mut call not_mut add zoom
        del: append.simps) simp
qed

theorem getattr_dispatch_witness:
  "Lens_getattr optics_model py_host
      \<lparr>state = PList [PList [PInt 3, PInt 1, PInt 2], PList [PInt 5, PInt 4]],
       lens = item_access (PInt 0)\<rparr> (''foo'' @ ''_'')
     = Inl (AttributeError ''Not a valid lens constructor'')
   \<and> (case Lens_getattr optics_model py_host
        \<lparr>state = PList [PList [PInt 3, PInt 1, PInt 2], PList [PInt 5, PInt 4]],
         lens = item_access (PInt 0)\<rparr> (''call_mut_'' @ ''sort'') of
        Inr (Caller c) \<Rightarrow> c [] []
      | other \<Rightarrow> Inl (UserError ''no caller''))
     = Inr (PList [PList [PInt 1, PInt 2, PInt 3], PList [PInt 5, PInt 4]])
   \<and> (case Lens_getattr optics_model py_host
        \<lparr>state = PList [PList [PInt 3, PInt 1, PInt 2], PList [PInt 5, PInt 4]],
         lens = item_access (PInt 0)\<rparr> (''call_'' @ ''count'') of
        Inr (Caller c) \<Rightarrow> c [PInt 3] []
      | other \<Rightarrow> Inl (UserError ''no caller''))
     = Inr (PList [PInt 1, PList [PInt 5, PInt 4]])
   \<and> Lens_getattr optics_model py_host
      \<lparr>state = PList [PList [PInt 3, PInt 1, PInt 2], PList [PInt 5, PInt 4]],
       lens = item_access (PInt 0)\<rparr> ''left''
     = Inr (Accessor
        \<lparr>state = PList [PList [PInt 3, PInt 1, PInt 2], PList [PInt 5, PInt 4]],
         lens = item_access (PInt 0) @ get_or_zoom ''left''\<rparr>)
   \<and> Lens_getitem optics_model
      \<lparr>state = PList [PList [PInt 3, PInt 1, PInt 2], PList [PInt 5, PInt 4]],
       lens = item_access (PInt 0)\<rparr> (PInt 1)
     = Inr \<lparr>state = PList [PList [PInt 3, PInt 1, PInt 2], PList [PInt 5, PInt 4]],
         lens = item_access (PInt 0) @ item_access (PInt 1)\<rparr>"
  using
    getattr_dispatch [of optics_model py_host
      "\<lparr>state = PList [PList [PInt 3, PInt 1, PInt 2], PList [PInt 5, PInt 4]],
        lens = item_access (PInt 0)\<rparr>" "''foo''" "''sort''" "''left''" "PInt 1"]
    getattr_dispatch [of optics_model py_host
      "\<lparr>state = PList [PList [PInt 3, PInt 1, PInt 2], PList [PInt 5, PInt 4]],
        lens = item_access (PInt 0)\<rparr>" "''foo''" "''count''" "''left''" "PInt 1"]
  by (simp add: endswith_def startswith_def Lens_getattr_def Lens_getitem_def Lens_add_lens_def
      Lens_call_mut_def Lens_call_def Lens_modify_def
      facade_defs kw_in_def call_mut_func_def call_mut_func_st_def call_func_def
      getattr_call_def read_value_def alloc_def copy_deepcopy_st_def
      optics_model_def chain_over_def item_access_def
      get_or_zoom_def chain_compose_def py_index_def py_host_def py_list_method_def)

section \<open>Properties of \<open>call_mut\<close>\<close>

subsection \<open>The deep copy\<close>















lemma copy_copy_st_ref:
  "p < length h \<Longrightarrow> copy_copy_st (HRef p) h = Inr (HRef (length h), h @ [h ! p])"
  by (simp add: alloc_def)

subsection \<open>The deep copy has the value of the original\<close>



















subsection \<open>The store of a value\<close>







subsection \<open>Copying before the call\<close>





end
